theory Spec2Isabelle
  imports Main
begin

section \<open>The OAuth token lifecycle manager of the mail relay\<close>

text \<open>
  The development embeds \<^verbatim>\<open>src/oauth_manager.py\<close> (class \<^verbatim>\<open>OAuthManager\<close>) and the
  route \<^verbatim>\<open>force_refresh\<close> of \<^verbatim>\<open>src/send_email.py\<close>.  The manager is a record, its methods
  are functions that take the manager and the world and return the result together with the
  updated manager and world.  An exception is a value: a method returns \<open>Inl e\<close> where the
  Python raises \<open>e\<close>.

  The provider SDK (\<^verbatim>\<open>google.oauth2.credentials.Credentials\<close>, \<^verbatim>\<open>InstalledAppFlow\<close>,
  \<^verbatim>\<open>google.auth.transport.requests.Request\<close>) is not part of the repository.  What the
  provider answers to a refresh and to an authorization flow is a parameter, the record
  \<open>sdk\<close>.  What the SDK computes locally is written out as the published library has it:
  the properties \<^verbatim>\<open>expired\<close> and \<^verbatim>\<open>valid\<close>, the serialisation \<^verbatim>\<open>to_json\<close>, the loader
  \<^verbatim>\<open>from_authorized_user_info\<close>, and the attributes of \<^verbatim>\<open>Request\<close>.  Times are naive
  UTC times in microseconds, the resolution of Python's \<^verbatim>\<open>datetime\<close>.
\<close>

subsection \<open>Exceptions\<close>

text \<open>
  The exception classes the source names in its \<^verbatim>\<open>except\<close> clauses or raises, and the classes
  that reach those clauses from the calls inside the \<^verbatim>\<open>try\<close> blocks.  Every constructor is a
  subclass of \<^verbatim>\<open>Exception\<close> and carries the text of the exception; the \<^verbatim>\<open>HTTPException\<close>
  carries its status and its detail.  A subclass is represented by the class an \<^verbatim>\<open>except\<close>
  clause sees (\<^verbatim>\<open>JSONDecodeError\<close> is a \<^verbatim>\<open>ValueError\<close>, \<^verbatim>\<open>PermissionError\<close> an
  \<^verbatim>\<open>OSError\<close>).
\<close>

datatype exn =
    ValueError string
  | KeyError string
  | OSError string
  | AttributeError string
  | RefreshError string
  | TransportError string
  | HTTPException nat string

text \<open>The decimal digits of a number, as \<^verbatim>\<open>str\<close> prints a status code.\<close>

fun str_nat :: "nat \<Rightarrow> string" where
  "str_nat n =
     (if n < 10 then [''0123456789'' ! n]
      else str_nat (n div 10) @ [''0123456789'' ! (n mod 10)])"

text \<open>
  \<^verbatim>\<open>str(e)\<close>: the text of the exception; for the \<^verbatim>\<open>HTTPException\<close> the status, a colon
  and the detail.
\<close>

primrec exn_str :: "exn \<Rightarrow> string" where
  "exn_str (ValueError s) = s"
| "exn_str (KeyError s) = s"
| "exn_str (OSError s) = s"
| "exn_str (AttributeError s) = s"
| "exn_str (RefreshError s) = s"
| "exn_str (TransportError s) = s"
| "exn_str (HTTPException code detail) = str_nat code @ '': '' @ detail"

text \<open>\<^verbatim>\<open>except (ValueError, KeyError)\<close> in \<^verbatim>\<open>get_credentials\<close>.\<close>

primrec caught_on_read :: "exn \<Rightarrow> bool" where
  "caught_on_read (ValueError s) = True"
| "caught_on_read (KeyError s) = True"
| "caught_on_read (OSError s) = False"
| "caught_on_read (AttributeError s) = False"
| "caught_on_read (RefreshError s) = False"
| "caught_on_read (TransportError s) = False"
| "caught_on_read (HTTPException code detail) = False"

text \<open>\<^verbatim>\<open>except RefreshError\<close> in \<^verbatim>\<open>_refresh_token\<close>.\<close>

primrec is_RefreshError :: "exn \<Rightarrow> bool" where
  "is_RefreshError (ValueError s) = False"
| "is_RefreshError (KeyError s) = False"
| "is_RefreshError (OSError s) = False"
| "is_RefreshError (AttributeError s) = False"
| "is_RefreshError (RefreshError s) = True"
| "is_RefreshError (TransportError s) = False"
| "is_RefreshError (HTTPException code detail) = False"

subsection \<open>Credentials, the token file, the manager and the world\<close>

text \<open>
  The attributes of an SDK credential that the manager reads or that the token file keeps.
  \<open>None\<close> is Python's \<^verbatim>\<open>None\<close>.
\<close>

record Credentials =
  token :: "string option"
  refresh_token :: "string option"
  expiry :: "int option"
  scopes :: "string list option"
  client_id :: "string option"
  client_secret :: "string option"

text \<open>
  The text of the token file after \<^verbatim>\<open>json.loads\<close>: not JSON at all (with the message of
  the \<^verbatim>\<open>JSONDecodeError\<close>), JSON that is not an object, or an object.  Of an object the
  keys the loader looks at are kept; a key is missing, \<^verbatim>\<open>null\<close>, or has a value.  The
  value under \<^verbatim>\<open>expiry\<close> is a string: either one that reads as a time (\<^verbatim>\<open>isoformat\<close> with
  or without fraction and final \<^verbatim>\<open>Z\<close>), kept as that time, or some other string.  Values of
  other JSON types under these keys are not represented.
\<close>

datatype 'a entry = Missing | Null | Val 'a

datatype expiry_text = IsoTime int | OtherText string

record user_info =
  info_token :: "string entry"
  info_refresh_token :: "string entry"
  info_client_id :: "string entry"
  info_client_secret :: "string entry"
  info_scopes :: "string list entry"
  info_expiry :: "expiry_text entry"

datatype token_text = NotJson string | NotAnObject | Object user_info

text \<open>The state of the path of a file: missing, present but not openable for reading, or its text.\<close>

datatype file_state = Absent | Unreadable string | Content token_text

text \<open>
  What the manager does to the outside, in order: the network calls to the provider and the
  mutations of the file system.
\<close>

datatype event =
    Refresh
  | OAuthFlow
  | RevokePost "string option"
  | FileWrite string token_text
  | FileRemove string

text \<open>
  The world: the file system, and for each path the message of the \<^verbatim>\<open>OSError\<close> that
  opening it for writing and writing it raises there (a read-only file, a directory, a
  parent that cannot be written, a full disk) and of the one that \<^verbatim>\<open>os.remove(path)\<close>
  raises there, if any.
\<close>

record world =
  fs :: "string \<Rightarrow> file_state"
  unwritable :: "string \<Rightarrow> string option"
  unremovable :: "string \<Rightarrow> string option"
  trace :: "event list"

text \<open>
  The clocks and the provider.  \<open>utcnow\<close> is \<^verbatim>\<open>datetime.utcnow()\<close>, \<open>utcoffset\<close> the
  offset of local time from UTC, \<open>refresh_threshold\<close> the allowance the SDK subtracts from
  an expiry before comparing.  \<open>refresh\<close> stands for \<^verbatim>\<open>credentials.refresh(request)\<close> (the
  credential as updated in place, or the exception), \<open>run_local_server\<close> for
  \<^verbatim>\<open>InstalledAppFlow.from_client_secrets_file\<close> on the given client file followed by
  \<^verbatim>\<open>flow.run_local_server\<close>.
\<close>

record sdk =
  utcnow :: int
  utcoffset :: int
  refresh_threshold :: nat
  refresh :: "Credentials \<Rightarrow> exn + Credentials"
  run_local_server :: "string \<Rightarrow> exn + Credentials"

text \<open>\<^verbatim>\<open>OAuthManager.__init__\<close>: the attributes of the manager.\<close>

record OAuthManager =
  token_file :: string
  credentials_file :: string
  credentials :: "Credentials option"
  token_expiry_buffer :: nat

definition init :: "string \<Rightarrow> string \<Rightarrow> OAuthManager" where
  "init tf cf =
     \<lparr>token_file = tf, credentials_file = cf, credentials = None, token_expiry_buffer = 300\<rparr>"

definition SCOPES :: "string list" where
  "SCOPES = [''https://www.googleapis.com/auth/gmail.send'']"

subsection \<open>What the SDK computes locally\<close>

text \<open>
  \<^verbatim>\<open>Credentials.expired\<close>: a credential without expiry never expires; otherwise it is expired
  once the clock has reached the expiry less the threshold.
\<close>

definition expired :: "sdk \<Rightarrow> Credentials \<Rightarrow> bool" where
  "expired E c =
     (case expiry c of
        None \<Rightarrow> False
      | Some t \<Rightarrow> t - int (refresh_threshold E) \<le> utcnow E)"

text \<open>\<^verbatim>\<open>Credentials.valid\<close>: there is a token and it is not expired.\<close>

definition valid :: "sdk \<Rightarrow> Credentials \<Rightarrow> bool" where
  "valid E c = (token c \<noteq> None \<and> \<not> expired E c)"

text \<open>Python's truth value of an optional string: \<^verbatim>\<open>None\<close> and \<^verbatim>\<open>''\<close> are false.\<close>

definition truthy :: "string option \<Rightarrow> bool" where
  "truthy s = (case s of None \<Rightarrow> False | Some x \<Rightarrow> x \<noteq> [])"

text \<open>
  \<^verbatim>\<open>Credentials.to_json\<close> followed by \<^verbatim>\<open>json.loads\<close> of what it returns: the attributes
  that are \<^verbatim>\<open>None\<close> are left out, the expiry is written with \<^verbatim>\<open>isoformat\<close> when there is
  one.
\<close>

definition to_entry :: "'a option \<Rightarrow> 'a entry" where
  "to_entry x = (case x of None \<Rightarrow> Missing | Some v \<Rightarrow> Val v)"

definition to_json :: "Credentials \<Rightarrow> user_info" where
  "to_json c =
     \<lparr>info_token = to_entry (token c),
      info_refresh_token = to_entry (refresh_token c),
      info_client_id = to_entry (client_id c),
      info_client_secret = to_entry (client_secret c),
      info_scopes = to_entry (scopes c),
      info_expiry = (case expiry c of None \<Rightarrow> Missing | Some t \<Rightarrow> Val (IsoTime t))\<rparr>"

text \<open>\<^verbatim>\<open>info.get(key)\<close>.\<close>

definition entry_get :: "'a entry \<Rightarrow> 'a option" where
  "entry_get e = (case e of Missing \<Rightarrow> None | Null \<Rightarrow> None | Val v \<Rightarrow> Some v)"

text \<open>
  The keys \<^verbatim>\<open>Credentials.from_authorized_user_info\<close> requires and does not find (the
  library lists them in no fixed order).
\<close>

definition missing_fields :: "user_info \<Rightarrow> string list" where
  "missing_fields info =
     (if info_refresh_token info = Missing then [''refresh_token''] else []) @
     (if info_client_id info = Missing then [''client_id''] else []) @
     (if info_client_secret info = Missing then [''client_secret''] else [])"

text \<open>
  The expiry the loader gives the credential: the time of the file cut at the fraction
  (\<^verbatim>\<open>split(".")[0]\<close> before \<^verbatim>\<open>strptime\<close>), hence in whole seconds; without an expiry in
  the file, or with an empty one, the current time less the threshold, so that the
  credential counts as expired.  A string that is not a time makes \<^verbatim>\<open>strptime\<close> raise a
  \<^verbatim>\<open>ValueError\<close>.
\<close>

definition parse_expiry :: "sdk \<Rightarrow> expiry_text entry \<Rightarrow> exn + int" where
  "parse_expiry E e =
     (case e of
        Val (IsoTime t) \<Rightarrow> Inr (t - t mod 1000000)
      | Val (OtherText s) \<Rightarrow>
          if s = [] then Inr (utcnow E - int (refresh_threshold E))
          else Inl (ValueError (''time data '' @ s @ '' does not match format''))
      | Null \<Rightarrow> Inr (utcnow E - int (refresh_threshold E))
      | Missing \<Rightarrow> Inr (utcnow E - int (refresh_threshold E)))"

text \<open>\<^verbatim>\<open>Credentials.from_authorized_user_info\<close> on an object.\<close>

definition from_authorized_user_info :: "sdk \<Rightarrow> user_info \<Rightarrow> exn + Credentials" where
  "from_authorized_user_info E info =
     (if missing_fields info \<noteq> [] then
        Inl (ValueError
          (''Authorized user info was not in the expected format, missing fields '' @
           concat (map (\<lambda>f. f @ '' '') (missing_fields info))))
      else
        (case parse_expiry E (info_expiry info) of
           Inl e \<Rightarrow> Inl e
         | Inr t \<Rightarrow>
             Inr \<lparr>token = entry_get (info_token info),
                  refresh_token = entry_get (info_refresh_token info),
                  expiry = Some t,
                  scopes = entry_get (info_scopes info),
                  client_id = entry_get (info_client_id info),
                  client_secret = entry_get (info_client_secret info)\<rparr>))"

text \<open>
  \<^verbatim>\<open>request.post(url, params, headers)\<close> on a \<^verbatim>\<open>Request\<close> of
  \<^verbatim>\<open>google.auth.transport.requests\<close>.  The class defines \<^verbatim>\<open>__init__\<close>, \<^verbatim>\<open>__del__\<close> and
  \<^verbatim>\<open>__call__\<close> and has the attribute \<^verbatim>\<open>session\<close>; it has no attribute \<^verbatim>\<open>post\<close>, so the
  attribute access raises before any request is made.  The result is the status code of
  the response, or the exception.
\<close>

definition request_post :: "string \<Rightarrow> string option \<Rightarrow> exn + nat" where
  "request_post url tok = Inl (AttributeError ''Request object has no attribute post'')"

subsection \<open>The methods of the manager\<close>

text \<open>\<^verbatim>\<open>os.path.exists\<close>.\<close>

definition path_exists :: "world \<Rightarrow> string \<Rightarrow> bool" where
  "path_exists w p = (fs w p \<noteq> Absent)"

text \<open>
  Lines 25 to 27 of \<^verbatim>\<open>get_credentials\<close>: open the token file, read it, parse it and build
  the credential.  \<^verbatim>\<open>open\<close> raises an \<^verbatim>\<open>OSError\<close> on a path that cannot be opened,
  \<^verbatim>\<open>json.loads\<close> a \<^verbatim>\<open>ValueError\<close> on a text that is not JSON, and on JSON that is not an
  object the loader's \<^verbatim>\<open>info.keys()\<close> raises an \<^verbatim>\<open>AttributeError\<close>.
\<close>

definition read_token_file :: "sdk \<Rightarrow> world \<Rightarrow> string \<Rightarrow> exn + Credentials" where
  "read_token_file E w p =
     (case fs w p of
        Absent \<Rightarrow> Inl (OSError ''No such file or directory'')
      | Unreadable msg \<Rightarrow> Inl (OSError msg)
      | Content txt \<Rightarrow>
          (case txt of
             NotJson msg \<Rightarrow> Inl (ValueError msg)
           | NotAnObject \<Rightarrow> Inl (AttributeError ''object has no attribute keys'')
           | Object info \<Rightarrow> from_authorized_user_info E info))"

text \<open>
  Lines 23 to 30 of \<^verbatim>\<open>get_credentials\<close>: when the token file exists the in-memory
  credential is replaced by the file's one, or by \<^verbatim>\<open>None\<close> when reading raises a
  \<^verbatim>\<open>ValueError\<close> or a \<^verbatim>\<open>KeyError\<close>; any other exception leaves the method.
\<close>

definition load_token :: "sdk \<Rightarrow> OAuthManager \<Rightarrow> world \<Rightarrow> (exn + unit) \<times> OAuthManager" where
  "load_token E m w =
     (if path_exists w (token_file m) then
        (case read_token_file E w (token_file m) of
           Inr c \<Rightarrow> (Inr (), m\<lparr>credentials := Some c\<rparr>)
         | Inl e \<Rightarrow>
             if caught_on_read e then (Inr (), m\<lparr>credentials := None\<rparr>)
             else (Inl e, m))
      else (Inr (), m))"

text \<open>
  \<^verbatim>\<open>_save_credentials\<close>: only a valid credential is written, and the \<^verbatim>\<open>open\<close> for
  writing may raise.
\<close>

definition save_credentials :: "sdk \<Rightarrow> OAuthManager \<Rightarrow> world \<Rightarrow> (exn + unit) \<times> world" where
  "save_credentials E m w =
     (case credentials m of
        None \<Rightarrow> (Inr (), w)
      | Some c \<Rightarrow>
          if valid E c then
            (case unwritable w (token_file m) of
               Some msg \<Rightarrow> (Inl (OSError msg), w)
             | None \<Rightarrow>
                 (Inr (),
                  w\<lparr>fs := (fs w)(token_file m := Content (Object (to_json c))),
                    trace := trace w @ [FileWrite (token_file m) (Object (to_json c))]\<rparr>))
          else (Inr (), w))"

text \<open>The \<^verbatim>\<open>detail\<close> of the \<^verbatim>\<open>HTTPException\<close> raised by \<^verbatim>\<open>_run_oauth_flow\<close>.\<close>

definition auth_failed_detail :: "exn \<Rightarrow> string" where
  "auth_failed_detail e =
     ''Authentication failed: '' @ exn_str e @
     ''. Please ensure your redirect URIs are properly configured in Google Cloud Console.''"

text \<open>
  \<^verbatim>\<open>_run_oauth_flow\<close>: any exception inside the \<^verbatim>\<open>try\<close>, of the flow or of the saving
  after it, becomes an \<^verbatim>\<open>HTTPException\<close> with status 500.  When the saving raises, the
  in-memory credential has already been replaced.
\<close>

definition run_oauth_flow ::
  "sdk \<Rightarrow> OAuthManager \<Rightarrow> world \<Rightarrow> (exn + Credentials option) \<times> OAuthManager \<times> world" where
  "run_oauth_flow E m w =
     (let w1 = w\<lparr>trace := trace w @ [OAuthFlow]\<rparr> in
      case run_local_server E (credentials_file m) of
        Inl e \<Rightarrow> (Inl (HTTPException 500 (auth_failed_detail e)), m, w1)
      | Inr c \<Rightarrow>
          (let m1 = m\<lparr>credentials := Some c\<rparr> in
           case save_credentials E m1 w1 of
             (Inl e, w2) \<Rightarrow> (Inl (HTTPException 500 (auth_failed_detail e)), m1, w2)
           | (Inr u, w2) \<Rightarrow> (Inr (credentials m1), m1, w2)))"

text \<open>
  \<^verbatim>\<open>_refresh_token\<close> (named \<open>refresh_token_op\<close>, as \<open>refresh_token\<close> is the attribute of
  the credential): a \<^verbatim>\<open>RefreshError\<close> inside the \<^verbatim>\<open>try\<close> falls back to the flow, any other
  exception, of the refresh or of the saving after it, leaves the method.  Without a
  credential \<^verbatim>\<open>self.credentials.refresh\<close> is an attribute access on \<^verbatim>\<open>None\<close>.
\<close>

definition refresh_token_op ::
  "sdk \<Rightarrow> OAuthManager \<Rightarrow> world \<Rightarrow> (exn + Credentials option) \<times> OAuthManager \<times> world" where
  "refresh_token_op E m w =
     (case credentials m of
        None \<Rightarrow> (Inl (AttributeError ''NoneType object has no attribute refresh''), m, w)
      | Some c \<Rightarrow>
          (let w1 = w\<lparr>trace := trace w @ [Refresh]\<rparr> in
           case refresh E c of
             Inr c' \<Rightarrow>
               (let m1 = m\<lparr>credentials := Some c'\<rparr> in
                case save_credentials E m1 w1 of
                  (Inl e, w2) \<Rightarrow>
                    if is_RefreshError e then run_oauth_flow E m1 w2 else (Inl e, m1, w2)
                | (Inr u, w2) \<Rightarrow> (Inr (credentials m1), m1, w2))
           | Inl e \<Rightarrow>
               if is_RefreshError e then run_oauth_flow E m w1
               else (Inl e, m, w1)))"

text \<open>\<^verbatim>\<open>get_credentials\<close>.\<close>

definition get_credentials ::
  "sdk \<Rightarrow> OAuthManager \<Rightarrow> world \<Rightarrow> (exn + Credentials option) \<times> OAuthManager \<times> world" where
  "get_credentials E m w =
     (case load_token E m w of
        (Inl e, m0) \<Rightarrow> (Inl e, m0, w)
      | (Inr u, m1) \<Rightarrow>
          (case credentials m1 of
             None \<Rightarrow> run_oauth_flow E m1 w
           | Some c \<Rightarrow>
               if \<not> valid E c then
                 (if expired E c \<and> truthy (refresh_token c) then refresh_token_op E m1 w
                  else run_oauth_flow E m1 w)
               else (Inr (credentials m1), m1, w)))"

text \<open>
  \<^verbatim>\<open>_is_token_expired_or_expiring_soon\<close>.  \<^verbatim>\<open>expiry.timestamp()\<close> reads the naive
  expiry as local time, \<^verbatim>\<open>time.time()\<close> is the clock, and the buffer is in seconds.  No
  method of the manager calls it.
\<close>

definition is_token_expired_or_expiring_soon :: "sdk \<Rightarrow> OAuthManager \<Rightarrow> bool" where
  "is_token_expired_or_expiring_soon E m =
     (case credentials m of
        None \<Rightarrow> True
      | Some c \<Rightarrow>
          (case expiry c of
             None \<Rightarrow> True
           | Some t \<Rightarrow>
               t - utcoffset E \<le> utcnow E + 1000000 * int (token_expiry_buffer m)))"

text \<open>
  \<^verbatim>\<open>revoke_token\<close>: the whole body after the validity test is inside
  \<^verbatim>\<open>try ... except Exception\<close>, which ends in \<^verbatim>\<open>return False\<close>.  A request that was
  answered is an event of the trace.
\<close>

definition revoke_token ::
  "sdk \<Rightarrow> OAuthManager \<Rightarrow> world \<Rightarrow> (exn + bool) \<times> OAuthManager \<times> world" where
  "revoke_token E m w =
     (case credentials m of
        None \<Rightarrow> (Inr False, m, w)
      | Some c \<Rightarrow>
          if valid E c then
            (let w1 = w\<lparr>trace := trace w @ [Refresh]\<rparr> in
             case refresh E c of
               Inl e \<Rightarrow> (Inr False, m, w1)
             | Inr c' \<Rightarrow>
                 (let m1 = m\<lparr>credentials := Some c'\<rparr> in
                  case request_post ''https://oauth2.googleapis.com/revoke'' (token c') of
                    Inl e \<Rightarrow> (Inr False, m1, w1)
                  | Inr status \<Rightarrow>
                      (let w2 = w1\<lparr>trace := trace w1 @ [RevokePost (token c')]\<rparr> in
                       if status = 200 then
                         (if path_exists w2 (token_file m1) then
                            (case unremovable w2 (token_file m1) of
                               Some msg \<Rightarrow> (Inr False, m1, w2)
                             | None \<Rightarrow>
                                 (Inr True, m1,
                                  w2\<lparr>fs := (fs w2)(token_file m1 := Absent),
                                     trace := trace w2 @ [FileRemove (token_file m1)]\<rparr>))
                          else (Inr True, m1, w2))
                       else (Inr False, m1, w2))))
          else (Inr False, m, w))"

subsection \<open>The route that forces a refresh\<close>

text \<open>
  \<^verbatim>\<open>force_refresh\<close> of \<^verbatim>\<open>send_email.py\<close>: the expiry of the in-memory credential is set to
  the current time, then \<^verbatim>\<open>get_credentials\<close> is called; every exception becomes a reply
  with \<^verbatim>\<open>success = False\<close>.  \<open>resp_expiry\<close> is the expiry reported, \<open>Some None\<close> for
  \<^verbatim>\<open>"Unknown"\<close> and \<open>None\<close> where the reply has no such key.
\<close>

record response =
  success :: bool
  message :: string
  resp_expiry :: "int option option"

definition force_refresh :: "sdk \<Rightarrow> OAuthManager \<Rightarrow> world \<Rightarrow> response \<times> OAuthManager \<times> world" where
  "force_refresh E m w =
     (let m0 = (case credentials m of
                  None \<Rightarrow> m
                | Some c \<Rightarrow> m\<lparr>credentials := Some (c\<lparr>expiry := Some (utcnow E)\<rparr>)\<rparr>)
      in case get_credentials E m0 w of
           (Inr (Some c), m', w') \<Rightarrow>
             (\<lparr>success = True, message = ''Token refreshed successfully'',
               resp_expiry = Some (expiry c)\<rparr>, m', w')
         | (Inr None, m', w') \<Rightarrow>
             (\<lparr>success = False,
               message = ''Failed to refresh token: '' @
                         exn_str (AttributeError ''NoneType object has no attribute expiry''),
               resp_expiry = None\<rparr>, m', w')
         | (Inl e, m', w') \<Rightarrow>
             (\<lparr>success = False, message = ''Failed to refresh token: '' @ exn_str e,
               resp_expiry = None\<rparr>, m', w'))"

text \<open>The events a call added to the trace.\<close>

definition new_events :: "world \<Rightarrow> world \<Rightarrow> event list" where
  "new_events w w' = drop (length (trace w)) (trace w')"

subsection \<open>Concrete credentials, providers and worlds\<close>

text \<open>
  The inputs the closed theorems below are evaluated at.  The clock of \<open>sdk_ok\<close> stands at
  1000 seconds with a threshold of 10 seconds.  Its provider answers a refresh with a new
  token that expires at 4600 seconds and an authorization flow with \<open>cred_live\<close>.
\<close>

definition cred_live :: Credentials where
  "cred_live =
     \<lparr>token = Some ''ya29.live'', refresh_token = Some ''1//rt'', expiry = Some 5000000000,
      scopes = Some SCOPES, client_id = Some ''id.apps.googleusercontent.com'',
      client_secret = Some ''secret''\<rparr>"

definition cred_stale :: Credentials where
  "cred_stale =
     \<lparr>token = Some ''ya29.old'', refresh_token = Some ''1//rt'', expiry = Some 400000000,
      scopes = Some SCOPES, client_id = Some ''id.apps.googleusercontent.com'',
      client_secret = Some ''secret''\<rparr>"

definition cred_renewed :: Credentials where
  "cred_renewed =
     \<lparr>token = Some ''ya29.new'', refresh_token = Some ''1//rt'', expiry = Some 4600000000,
      scopes = Some SCOPES, client_id = Some ''id.apps.googleusercontent.com'',
      client_secret = Some ''secret''\<rparr>"

definition sdk_ok :: sdk where
  "sdk_ok =
     \<lparr>utcnow = 1000000000, utcoffset = 0, refresh_threshold = 10000000,
      refresh = (\<lambda>c. Inr (c\<lparr>token := Some ''ya29.new'', expiry := Some 4600000000\<rparr>)),
      run_local_server = (\<lambda>p. Inr cred_live)\<rparr>"

definition manager0 :: OAuthManager where
  "manager0 = init ''token.json'' ''credentials.json''"

definition world_empty :: world where
  "world_empty =
     \<lparr>fs = (\<lambda>p. Absent), unwritable = (\<lambda>p. None), unremovable = (\<lambda>p. None), trace = []\<rparr>"

definition world_with :: "file_state \<Rightarrow> world" where
  "world_with f = world_empty\<lparr>fs := (\<lambda>p. Absent)(''token.json'' := f)\<rparr>"


text \<open>An expired credential without refresh token.\<close>

definition cred_stale_norefresh :: Credentials where
  "cred_stale_norefresh = cred_stale\<lparr>refresh_token := None\<rparr>"

text \<open>A credential with a token and without expiry.\<close>

definition cred_noexpiry :: Credentials where
  "cred_noexpiry = cred_live\<lparr>token := Some ''ya29.forever'', expiry := None\<rparr>"

text \<open>A valid credential without refresh token.\<close>

definition cred_live_norefresh :: Credentials where
  "cred_live_norefresh = cred_live\<lparr>refresh_token := None\<rparr>"

text \<open>A valid credential whose expiry has a fraction of a second, as a refresh sets it.\<close>

definition cred_live_micro :: Credentials where
  "cred_live_micro = cred_live\<lparr>expiry := Some 5000000123\<rparr>"

text \<open>A credential that expires in five seconds, inside the threshold.\<close>

definition cred_short_lived :: Credentials where
  "cred_short_lived = cred_renewed\<lparr>expiry := Some 1005000000\<rparr>"


text \<open>The provider rejects the refresh token.\<close>

definition sdk_rejecting :: sdk where
  "sdk_rejecting = sdk_ok\<lparr>refresh := (\<lambda>c. Inl (RefreshError ''invalid_grant''))\<rparr>"

text \<open>The provider answers a refresh with a token that is already within the threshold.\<close>

definition sdk_short_lived :: sdk where
  "sdk_short_lived =
     sdk_ok\<lparr>refresh :=
              (\<lambda>c. Inr (c\<lparr>token := Some ''ya29.new'', expiry := Some 1005000000\<rparr>))\<rparr>"


section \<open>Properties\<close>

lemmas example_defs =
  cred_live_def cred_stale_def cred_renewed_def sdk_ok_def
  manager0_def world_empty_def world_with_def init_def SCOPES_def

lemmas method_defs =
  get_credentials_def load_token_def read_token_file_def path_exists_def
  save_credentials_def run_oauth_flow_def refresh_token_op_def
  valid_def expired_def truthy_def auth_failed_detail_def new_events_def
  from_authorized_user_info_def missing_fields_def parse_expiry_def entry_get_def
  to_json_def to_entry_def

subsection \<open>What each method returns and what it adds to the trace\<close>

lemma str_nat_500: "str_nat 500 = ''500''"
  by simp

lemma save_credentials_cases:
  "save_credentials E m w = (Inr (), w) \<and> \<not> (\<exists>c. credentials m = Some c \<and> valid E c \<and> unwritable w (token_file m) = None)
   \<or> (\<exists>c. credentials m = Some c \<and> valid E c \<and> unwritable w (token_file m) = None \<and>
          save_credentials E m w =
            (Inr (), w\<lparr>fs := (fs w)(token_file m := Content (Object (to_json c))),
                       trace := trace w @ [FileWrite (token_file m) (Object (to_json c))]\<rparr>))
   \<or> (\<exists>c msg. credentials m = Some c \<and> valid E c \<and> unwritable w (token_file m) = Some msg \<and>
          save_credentials E m w = (Inl (OSError msg), w))"
  by (auto simp: save_credentials_def split: option.splits)

lemma save_credentials_trace:
  "\<exists>evs. trace (snd (save_credentials E m w)) = trace w @ evs \<and>
         Refresh \<notin> set evs \<and> OAuthFlow \<notin> set evs"
  by (simp add: save_credentials_def split: option.splits)

lemma save_credentials_unwritable:
  "unwritable (snd (save_credentials E m w)) = unwritable w"
  by (simp add: save_credentials_def split: option.splits)

lemma run_oauth_flow_trace:
  "\<exists>rest. trace (snd (snd (run_oauth_flow E m w))) = trace w @ OAuthFlow # rest \<and>
          Refresh \<notin> set rest"
proof (cases "run_local_server E (credentials_file m)")
  case (Inl e)
  then show ?thesis by (simp add: run_oauth_flow_def)
next
  case (Inr c)
  obtain evs where
    "trace (snd (save_credentials E (m\<lparr>credentials := Some c\<rparr>) (w\<lparr>trace := trace w @ [OAuthFlow]\<rparr>)))
       = trace (w\<lparr>trace := trace w @ [OAuthFlow]\<rparr>) @ evs"
    "Refresh \<notin> set evs"
    using save_credentials_trace by blast
  with Inr show ?thesis
    by (auto simp: run_oauth_flow_def Let_def split: prod.splits sum.splits)
qed

lemma refresh_token_op_trace:
  assumes "credentials m = Some c"
  shows "\<exists>rest. trace (snd (snd (refresh_token_op E m w))) = trace w @ Refresh # rest"
proof (cases "refresh E c")
  case (Inl e)
  show ?thesis
  proof (cases "is_RefreshError e")
    case True
    obtain rest where
      "trace (snd (snd (run_oauth_flow E m (w\<lparr>trace := trace w @ [Refresh]\<rparr>))))
         = trace (w\<lparr>trace := trace w @ [Refresh]\<rparr>) @ OAuthFlow # rest"
      using run_oauth_flow_trace by blast
    with Inl True assms show ?thesis by (simp add: refresh_token_op_def Let_def)
  next
    case False
    with Inl assms show ?thesis by (simp add: refresh_token_op_def Let_def)
  qed
next
  case (Inr c')
  let ?m1 = "m\<lparr>credentials := Some c'\<rparr>"
  let ?w1 = "w\<lparr>trace := trace w @ [Refresh]\<rparr>"
  obtain evs where s: "trace (snd (save_credentials E ?m1 ?w1)) = trace ?w1 @ evs"
    using save_credentials_trace by blast
  obtain r w2 where sv: "save_credentials E ?m1 ?w1 = (r, w2)" by (cases "save_credentials E ?m1 ?w1")
  obtain rest where f: "trace (snd (snd (run_oauth_flow E ?m1 w2))) = trace w2 @ OAuthFlow # rest"
    using run_oauth_flow_trace by blast
  from s sv have t2: "trace w2 = trace w @ Refresh # evs" by simp
  show ?thesis
    using Inr assms sv t2 f
    by (auto simp: refresh_token_op_def Let_def split: sum.splits)
qed

lemma run_oauth_flow_result:
  "fst (run_oauth_flow E m w) =
     (case run_local_server E (credentials_file m) of
        Inl e \<Rightarrow> Inl (HTTPException 500 (auth_failed_detail e))
      | Inr c \<Rightarrow>
          if valid E c then
            (case unwritable w (token_file m) of
               Some msg \<Rightarrow> Inl (HTTPException 500 (auth_failed_detail (OSError msg)))
             | None \<Rightarrow> Inr (Some c))
          else Inr (Some c))"
  by (simp add: run_oauth_flow_def save_credentials_def Let_def split: sum.splits option.splits)


lemma future_expiry_not_expired:
  "expiry c = Some t \<Longrightarrow> utcnow E + int (refresh_threshold E) < t \<Longrightarrow> \<not> expired E c"
  by (simp add: expired_def)

lemma expired_past: "expiry c = Some t \<Longrightarrow> t \<le> utcnow E \<Longrightarrow> expired E c"
  by (simp add: expired_def)

lemma expired_not_valid: "expired E c \<Longrightarrow> \<not> valid E c"
  by (simp add: valid_def)

lemma get_credentials_after_load:
  assumes "load_token E m w = (Inr (), m1)" and "credentials m1 = Some c"
  shows "get_credentials E m w =
           (if valid E c then (Inr (Some c), m1, w)
            else if expired E c \<and> truthy (refresh_token c) then refresh_token_op E m1 w
            else run_oauth_flow E m1 w)"
  using assms by (simp add: get_credentials_def)


lemma new_events_append: "trace w' = trace w @ evs \<Longrightarrow> new_events w w' = evs"
  by (simp add: new_events_def)


lemma load_token_existing:
  assumes "path_exists w (token_file m)"
  shows "load_token E (m\<lparr>credentials := x\<rparr>) w =
           (case read_token_file E w (token_file m) of
              Inr c \<Rightarrow> (Inr (), m\<lparr>credentials := Some c\<rparr>)
            | Inl e \<Rightarrow> if caught_on_read e then (Inr (), m\<lparr>credentials := None\<rparr>)
                       else (Inl e, m\<lparr>credentials := x\<rparr>))"
  using assms by (simp add: load_token_def path_exists_def split: sum.splits)


text \<open>
  The credential \<^verbatim>\<open>get_credentials\<close> holds after its look at the token file is the
  in-memory one when there is no token file, and the file's one when the file can be read.
\<close>

lemma load_token_holds_iff:
  "load_token E m w = (Inr (), m1) \<and> credentials m1 = Some c \<longleftrightarrow>
     (\<not> path_exists w (token_file m) \<and> credentials m = Some c \<and> m1 = m) \<or>
     (path_exists w (token_file m) \<and> read_token_file E w (token_file m) = Inr c \<and>
      m1 = m\<lparr>credentials := Some c\<rparr>)"
  by (auto simp: load_token_def split: sum.splits if_splits)

text \<open>What reading the token file raises, by the state of the file.\<close>

lemma read_token_file_raises:
  "fs w p = Unreadable msg \<Longrightarrow> read_token_file E w p = Inl (OSError msg)"
  "fs w p = Content (NotJson msg) \<Longrightarrow> read_token_file E w p = Inl (ValueError msg)"
  "fs w p = Content NotAnObject \<Longrightarrow>
     read_token_file E w p = Inl (AttributeError ''object has no attribute keys'')"
  "fs w p = Content (Object info) \<Longrightarrow> missing_fields info \<noteq> [] \<Longrightarrow>
     \<exists>msg. read_token_file E w p = Inl (ValueError msg)"
  by (simp_all add: read_token_file_def from_authorized_user_info_def)

text \<open>
  What the loader makes of a file the SDK has written itself: nothing when the refresh
  token, the client id or the client secret is \<^verbatim>\<open>None\<close>, since \<^verbatim>\<open>to_json\<close> leaves such
  keys out and the loader requires them; otherwise the credential with its expiry cut to
  whole seconds, or, when it had none, an expiry that counts as expired.
\<close>

lemma from_authorized_user_info_to_json:
  "from_authorized_user_info E (to_json c) =
     (if refresh_token c = None \<or> client_id c = None \<or> client_secret c = None
      then Inl (ValueError
        (''Authorized user info was not in the expected format, missing fields '' @
         concat (map (\<lambda>f. f @ '' '') (missing_fields (to_json c)))))
      else Inr (c\<lparr>expiry := Some (case expiry c of
                                     None \<Rightarrow> utcnow E - int (refresh_threshold E)
                                   | Some t \<Rightarrow> t - t mod 1000000)\<rparr>))"
  by (cases c)
    (auto simp: from_authorized_user_info_def to_json_def to_entry_def missing_fields_def
      parse_expiry_def entry_get_def split: option.splits)

subsection \<open>Claim C1: what \<open>get_credentials\<close> returns or raises\<close>




text \<open>
  A provider that answers the refresh with a token already within the threshold has that
  credential returned as it is.
\<close>

lemma get_credentials_returns_fresh_unchecked:
  "fst (get_credentials sdk_short_lived (manager0\<lparr>credentials := Some cred_stale\<rparr>) world_empty)
     = Inr (Some cred_short_lived) \<and>
   \<not> valid sdk_short_lived cred_short_lived"
  by (simp add: example_defs cred_short_lived_def sdk_short_lived_def method_defs)

subsection \<open>Claim C2: an expired credential is refreshed first, or sent to the flow\<close>

text \<open>
  C2: let \<open>c\<close> be the credential \<^verbatim>\<open>get_credentials\<close> holds after it has looked at the token
  file (the one of the file when the file exists, the in-memory one otherwise), and let its
  expiry be in the past.  If \<open>c\<close> has a refresh token (a non-empty string, which is what the
  \<^verbatim>\<open>if\<close> of the source tests), the call is the call of \<^verbatim>\<open>_refresh_token\<close> and the first
  thing it does to the outside is the refresh, so that a fallback to the authorization flow
  can only come after it.  If \<open>c\<close> has no refresh token, the call is the call of
  \<^verbatim>\<open>_run_oauth_flow\<close>: the first event is the flow and no refresh is ever attempted.
\<close>

theorem expired_credential_refresh_before_flow:
  assumes "load_token E m w = (Inr (), m1)"
    and "credentials m1 = Some c"
    and "expiry c = Some t"
    and "t \<le> utcnow E"
  shows "(truthy (refresh_token c) \<longrightarrow>
            get_credentials E m w = refresh_token_op E m1 w \<and>
            (\<exists>rest. new_events w (snd (snd (get_credentials E m w))) = Refresh # rest)) \<and>
         (\<not> truthy (refresh_token c) \<longrightarrow>
            get_credentials E m w = run_oauth_flow E m1 w \<and>
            (\<exists>rest. new_events w (snd (snd (get_credentials E m w))) = OAuthFlow # rest \<and>
                    Refresh \<notin> set rest))"
proof -
  have ex: "expired E c" using assms(3,4) by (rule expired_past)
  then have nv: "\<not> valid E c" by (rule expired_not_valid)
  show ?thesis
  proof (intro conjI impI)
    assume tr: "truthy (refresh_token c)"
    show g: "get_credentials E m w = refresh_token_op E m1 w"
      using get_credentials_after_load [OF assms(1,2)] ex nv tr by simp
    obtain rest where "trace (snd (snd (refresh_token_op E m1 w))) = trace w @ Refresh # rest"
      using refresh_token_op_trace [OF assms(2)] by blast
    then show "\<exists>rest. new_events w (snd (snd (get_credentials E m w))) = Refresh # rest"
      using g by (simp add: new_events_append)
  next
    assume tr: "\<not> truthy (refresh_token c)"
    show g: "get_credentials E m w = run_oauth_flow E m1 w"
      using get_credentials_after_load [OF assms(1,2)] ex nv tr by simp
    obtain rest where "trace (snd (snd (run_oauth_flow E m1 w))) = trace w @ OAuthFlow # rest"
      "Refresh \<notin> set rest"
      using run_oauth_flow_trace by blast
    then show "\<exists>rest. new_events w (snd (snd (get_credentials E m w))) = OAuthFlow # rest \<and>
                    Refresh \<notin> set rest"
      using g by (simp add: new_events_append)
  qed
qed

text \<open>
  Three runs: an expired credential with a refresh token in memory and a provider that
  rejects it (refresh, then flow, then the write of the new record); the same credential
  read from the token file; an expired credential without refresh token (flow at once).
\<close>

theorem expired_credential_refresh_before_flow_witness:
  "get_credentials sdk_rejecting (manager0\<lparr>credentials := Some cred_stale\<rparr>) world_empty
     = refresh_token_op sdk_rejecting (manager0\<lparr>credentials := Some cred_stale\<rparr>) world_empty \<and>
   new_events world_empty
       (snd (snd (get_credentials sdk_rejecting (manager0\<lparr>credentials := Some cred_stale\<rparr>)
          world_empty)))
     = [Refresh, OAuthFlow, FileWrite ''token.json'' (Object (to_json cred_live))] \<and>
   get_credentials sdk_ok manager0 (world_with (Content (Object (to_json cred_stale))))
     = refresh_token_op sdk_ok (manager0\<lparr>credentials := Some cred_stale\<rparr>)
         (world_with (Content (Object (to_json cred_stale)))) \<and>
   get_credentials sdk_ok (manager0\<lparr>credentials := Some cred_stale_norefresh\<rparr>) world_empty
     = run_oauth_flow sdk_ok (manager0\<lparr>credentials := Some cred_stale_norefresh\<rparr>) world_empty \<and>
   new_events world_empty
       (snd (snd (get_credentials sdk_ok (manager0\<lparr>credentials := Some cred_stale_norefresh\<rparr>)
          world_empty)))
     = [OAuthFlow, FileWrite ''token.json'' (Object (to_json cred_live))]"
proof -
  let ?m = "manager0\<lparr>credentials := Some cred_stale\<rparr>"
  let ?n = "manager0\<lparr>credentials := Some cred_stale_norefresh\<rparr>"
  have a: "load_token sdk_rejecting ?m world_empty = (Inr (), ?m)"
    by (simp add: example_defs sdk_rejecting_def method_defs)
  have b: "load_token sdk_ok manager0 (world_with (Content (Object (to_json cred_stale))))
             = (Inr (), ?m)"
    by (simp add: example_defs method_defs)
  have c: "load_token sdk_ok ?n world_empty = (Inr (), ?n)"
    by (simp add: example_defs cred_stale_norefresh_def method_defs)
  have e: "expiry cred_stale = Some 400000000" "expiry cred_stale_norefresh = Some 400000000"
    by (simp_all add: example_defs cred_stale_norefresh_def)
  have t: "(400000000::int) \<le> utcnow sdk_rejecting" "(400000000::int) \<le> utcnow sdk_ok"
    by (simp_all add: example_defs sdk_rejecting_def)
  have tr: "truthy (refresh_token cred_stale)" "\<not> truthy (refresh_token cred_stale_norefresh)"
    by (simp_all add: example_defs cred_stale_norefresh_def truthy_def)
  have n1: "new_events world_empty (snd (snd (get_credentials sdk_rejecting ?m world_empty)))
     = [Refresh, OAuthFlow, FileWrite ''token.json'' (Object (to_json cred_live))]"
    by (simp add: example_defs sdk_rejecting_def method_defs)
  have n2: "new_events world_empty (snd (snd (get_credentials sdk_ok ?n world_empty)))
     = [OAuthFlow, FileWrite ''token.json'' (Object (to_json cred_live))]"
    by (simp add: example_defs cred_stale_norefresh_def method_defs)
  show ?thesis
    using expired_credential_refresh_before_flow [OF a _ e(1) t(1)]
      expired_credential_refresh_before_flow [OF b _ e(1) t(2)]
      expired_credential_refresh_before_flow [OF c _ e(2) t(2)] tr n1 n2
    by simp
qed

subsection \<open>Claim C3: a rejected refresh falls back to the flow, a successful one is saved if valid\<close>




subsection \<open>Claim C4: \<open>revoke_token\<close> never revokes\<close>

text \<open>
  C4 says that \<^verbatim>\<open>revoke_token\<close>, when a valid credential exists and the provider
  acknowledges the revocation, deletes the persisted record, clears the in-memory credential
  and returns \<^verbatim>\<open>True\<close>, and that in every failure case it returns \<^verbatim>\<open>False\<close> and never
  raises.

  The method reaches the provider for the refresh only.  The revocation is written as
  \<^verbatim>\<open>request.post(...)\<close> on a \<^verbatim>\<open>Request\<close>, which has no such attribute: the
  \<^verbatim>\<open>AttributeError\<close> is caught by the \<^verbatim>\<open>except Exception\<close> of the method.  Hence for every
  manager, provider and world the method returns \<^verbatim>\<open>False\<close> without raising, the file
  system is as before, no revocation request appears among the events, and a manager that
  held a credential still holds one.
\<close>

theorem revoke_token_never_succeeds:
  "fst (revoke_token E m w) = Inr False \<and>
   fs (snd (snd (revoke_token E m w))) = fs w \<and>
   (\<forall>t. RevokePost t \<notin> set (new_events w (snd (snd (revoke_token E m w))))) \<and>
   (credentials (fst (snd (revoke_token E m w))) = None \<longleftrightarrow> credentials m = None)"
  by (auto simp: revoke_token_def request_post_def Let_def new_events_def
      split: option.splits sum.splits)

text \<open>
  A valid credential in memory and in the token file, and a provider that answers: the
  refresh is made, the result is \<^verbatim>\<open>False\<close>, the token file is still there and the manager
  holds the refreshed credential.
\<close>

theorem revoke_token_never_succeeds_witness:
  "revoke_token sdk_ok (manager0\<lparr>credentials := Some cred_live\<rparr>)
       (world_with (Content (Object (to_json cred_live))))
     = (Inr False, manager0\<lparr>credentials := Some cred_renewed\<rparr>,
        world_with (Content (Object (to_json cred_live)))\<lparr>trace := [Refresh]\<rparr>)"
  using revoke_token_never_succeeds [of sdk_ok "manager0\<lparr>credentials := Some cred_live\<rparr>"
      "world_with (Content (Object (to_json cred_live)))"]
  by (simp add: example_defs method_defs revoke_token_def request_post_def)

subsection \<open>Claim C5: a token file that cannot be parsed\<close>

text \<open>
  C5 says that a persisted record that is malformed or unreadable is treated as if no
  credential were stored: no error reaches the caller and the full authorization flow runs.

  The \<^verbatim>\<open>except\<close> clause of the source names \<^verbatim>\<open>ValueError\<close> and \<^verbatim>\<open>KeyError\<close>.  When the
  token file exists and reading it raises \<open>e\<close>: if \<open>e\<close> is one of these two (a text that is
  not JSON, an object without one of the required keys, an expiry that is not a time), the
  call is the call of \<^verbatim>\<open>_run_oauth_flow\<close> with the in-memory credential discarded, \<open>e\<close> is
  not the outcome, the first event is the flow and no refresh is made; if \<open>e\<close> is of any
  other class (the \<^verbatim>\<open>OSError\<close> of a file that cannot be opened, the \<^verbatim>\<open>AttributeError\<close>
  of JSON that is not an object), the caller receives \<open>e\<close> and manager and world are
  unchanged.
\<close>

theorem unparsable_token_file_runs_flow:
  assumes "path_exists w (token_file m)"
    and "read_token_file E w (token_file m) = Inl e"
  shows "(caught_on_read e \<longrightarrow>
            get_credentials E m w = run_oauth_flow E (m\<lparr>credentials := None\<rparr>) w \<and>
            fst (get_credentials E m w) \<noteq> Inl e \<and>
            (\<exists>rest. new_events w (snd (snd (get_credentials E m w))) = OAuthFlow # rest \<and>
                    Refresh \<notin> set rest)) \<and>
         (\<not> caught_on_read e \<longrightarrow> get_credentials E m w = (Inl e, m, w))"
proof (intro conjI impI)
  assume c: "caught_on_read e"
  show g: "get_credentials E m w = run_oauth_flow E (m\<lparr>credentials := None\<rparr>) w"
    using assms c by (simp add: get_credentials_def load_token_def)
  show "fst (get_credentials E m w) \<noteq> Inl e"
    using c unfolding g run_oauth_flow_result
    by (cases e) (auto split: sum.splits option.splits)
  obtain rest where
    "trace (snd (snd (run_oauth_flow E (m\<lparr>credentials := None\<rparr>) w))) = trace w @ OAuthFlow # rest"
    "Refresh \<notin> set rest"
    using run_oauth_flow_trace by blast
  then show "\<exists>rest. new_events w (snd (snd (get_credentials E m w))) = OAuthFlow # rest \<and>
                    Refresh \<notin> set rest"
    using g by (simp add: new_events_append)
next
  assume "\<not> caught_on_read e"
  then show "get_credentials E m w = (Inl e, m, w)"
    using assms by (simp add: get_credentials_def load_token_def)
qed

text \<open>
  A token file that is not JSON, with a credential in memory that is then discarded; and a
  token file that holds JSON which is not an object.
\<close>

theorem unparsable_token_file_runs_flow_witness:
  "get_credentials sdk_ok (manager0\<lparr>credentials := Some cred_renewed\<rparr>)
       (world_with (Content (NotJson ''Expecting value: line 1 column 1 (char 0)'')))
     = run_oauth_flow sdk_ok manager0
         (world_with (Content (NotJson ''Expecting value: line 1 column 1 (char 0)''))) \<and>
   fst (get_credentials sdk_ok (manager0\<lparr>credentials := Some cred_renewed\<rparr>)
       (world_with (Content (NotJson ''Expecting value: line 1 column 1 (char 0)''))))
     = Inr (Some cred_live) \<and>
   get_credentials sdk_ok (manager0\<lparr>credentials := Some cred_renewed\<rparr>)
       (world_with (Content NotAnObject))
     = (Inl (AttributeError ''object has no attribute keys''),
        manager0\<lparr>credentials := Some cred_renewed\<rparr>, world_with (Content NotAnObject))"
proof -
  let ?m = "manager0\<lparr>credentials := Some cred_renewed\<rparr>"
  let ?w = "world_with (Content (NotJson ''Expecting value: line 1 column 1 (char 0)''))"
  let ?v = "world_with (Content NotAnObject)"
  have a: "path_exists ?w (token_file ?m)" "path_exists ?v (token_file ?m)"
    by (simp_all add: example_defs path_exists_def)
  have b: "read_token_file sdk_ok ?w (token_file ?m)
             = Inl (ValueError ''Expecting value: line 1 column 1 (char 0)'')"
    "read_token_file sdk_ok ?v (token_file ?m)
             = Inl (AttributeError ''object has no attribute keys'')"
    by (simp_all add: example_defs read_token_file_def)
  have d: "?m\<lparr>credentials := None\<rparr> = manager0" by (simp add: example_defs)
  have f: "fst (run_oauth_flow sdk_ok manager0 ?w) = Inr (Some cred_live)"
    by (simp add: example_defs method_defs)
  show ?thesis
    using unparsable_token_file_runs_flow [OF a(1) b(1)]
      unparsable_token_file_runs_flow [OF a(2) b(2)] d f by simp
qed

text \<open>
  A token file that exists but cannot be opened: the caller receives the \<^verbatim>\<open>OSError\<close> and
  no authorization flow runs.
\<close>

theorem unparsable_token_file_runs_flow_counterexample:
  "get_credentials sdk_ok manager0
       (world_with (Unreadable ''[Errno 13] Permission denied: token.json''))
     = (Inl (OSError ''[Errno 13] Permission denied: token.json''), manager0,
        world_with (Unreadable ''[Errno 13] Permission denied: token.json''))"
  by (simp add: example_defs method_defs)

subsection \<open>Claim C6: a credential without expiry\<close>



text \<open>
  The helper \<^verbatim>\<open>_is_token_expired_or_expiring_soon\<close> answers \<^verbatim>\<open>True\<close> for such a
  credential; \<^verbatim>\<open>get_credentials\<close> does not consult it.
\<close>

lemma unused_buffer_check_disagrees:
  "is_token_expired_or_expiring_soon sdk_ok (manager0\<lparr>credentials := Some cred_noexpiry\<rparr>)"
  by (simp add: is_token_expired_or_expiring_soon_def example_defs cred_noexpiry_def)

subsection \<open>Claim C7: saving and loading a credential\<close>

text \<open>
  C7 says that saving a valid credential and loading it back yields a credential with the
  same access token, refresh token, expiry and scopes.

  Let \<open>c\<close> be the valid credential of the manager and let the token file be writable.
  After \<^verbatim>\<open>_save_credentials\<close> the token file holds the serialisation of \<open>c\<close>.  Loading it,
  whatever the in-memory credential is at that time, gives: if \<open>c\<close> has a refresh token, a
  client id and a client secret, the credential \<open>c\<close> with the same access token, refresh
  token and scopes, and with its expiry cut to whole seconds (or, if \<open>c\<close> had no expiry,
  with the expiry of the loading time less the threshold); so exactly \<open>c\<close> when its expiry
  is in whole seconds.  If one of the three is \<^verbatim>\<open>None\<close>, the loader raises a
  \<^verbatim>\<open>ValueError\<close> and no credential is held.
\<close>

theorem save_then_load:
  assumes "credentials m = Some c"
    and "valid E c"
    and "unwritable w (token_file m) = None"
  shows "fs (snd (save_credentials E m w)) (token_file m) = Content (Object (to_json c)) \<and>
         (refresh_token c \<noteq> None \<and> client_id c \<noteq> None \<and> client_secret c \<noteq> None \<longrightarrow>
            load_token E (m\<lparr>credentials := x\<rparr>) (snd (save_credentials E m w))
              = (Inr (), m\<lparr>credentials :=
                   Some (c\<lparr>expiry := Some (case expiry c of
                                              None \<Rightarrow> utcnow E - int (refresh_threshold E)
                                            | Some t \<Rightarrow> t - t mod 1000000)\<rparr>)\<rparr>)) \<and>
         (\<forall>t. refresh_token c \<noteq> None \<and> client_id c \<noteq> None \<and> client_secret c \<noteq> None \<and>
              expiry c = Some t \<and> t mod 1000000 = 0 \<longrightarrow>
            load_token E (m\<lparr>credentials := x\<rparr>) (snd (save_credentials E m w)) = (Inr (), m)) \<and>
         (refresh_token c = None \<or> client_id c = None \<or> client_secret c = None \<longrightarrow>
            load_token E (m\<lparr>credentials := x\<rparr>) (snd (save_credentials E m w))
              = (Inr (), m\<lparr>credentials := None\<rparr>))"
proof -
  let ?w = "snd (save_credentials E m w)"
  have f: "fs ?w (token_file m) = Content (Object (to_json c))"
    using assms by (simp add: save_credentials_def)
  have r: "read_token_file E ?w (token_file m) = from_authorized_user_info E (to_json c)"
    using f by (simp add: read_token_file_def)
  have p: "path_exists ?w (token_file m)" using f by (simp add: path_exists_def)
  have eq: "m\<lparr>credentials := Some c\<rparr> = m" using assms(1) by simp
  show ?thesis
  proof (intro conjI allI impI)
    show "fs ?w (token_file m) = Content (Object (to_json c))" by (rule f)
  next
    assume "refresh_token c \<noteq> None \<and> client_id c \<noteq> None \<and> client_secret c \<noteq> None"
    then show "load_token E (m\<lparr>credentials := x\<rparr>) ?w
              = (Inr (), m\<lparr>credentials :=
                   Some (c\<lparr>expiry := Some (case expiry c of
                                              None \<Rightarrow> utcnow E - int (refresh_threshold E)
                                            | Some t \<Rightarrow> t - t mod 1000000)\<rparr>)\<rparr>)"
      unfolding load_token_existing [OF p] r from_authorized_user_info_to_json by auto
  next
    fix t
    assume h: "refresh_token c \<noteq> None \<and> client_id c \<noteq> None \<and> client_secret c \<noteq> None \<and>
              expiry c = Some t \<and> t mod 1000000 = 0"
    then have ce: "c\<lparr>expiry := Some t\<rparr> = c" by (cases c) simp
    have me: "m\<lparr>credentials := Some (c\<lparr>expiry := Some t\<rparr>)\<rparr> = m"
      unfolding ce by (rule eq)
    show "load_token E (m\<lparr>credentials := x\<rparr>) ?w = (Inr (), m)"
      unfolding load_token_existing [OF p] r from_authorized_user_info_to_json
      using h me by auto
  next
    assume "refresh_token c = None \<or> client_id c = None \<or> client_secret c = None"
    then show "load_token E (m\<lparr>credentials := x\<rparr>) ?w = (Inr (), m\<lparr>credentials := None\<rparr>)"
      unfolding load_token_existing [OF p] r from_authorized_user_info_to_json by auto
  qed
qed

text \<open>
  A credential whose expiry has 123 microseconds comes back with the expiry in whole
  seconds; one with the expiry in whole seconds comes back as it was; one without refresh
  token does not come back.
\<close>

theorem save_then_load_witness:
  "fs (snd (save_credentials sdk_ok (manager0\<lparr>credentials := Some cred_live_micro\<rparr>)
         world_empty)) ''token.json'' = Content (Object (to_json cred_live_micro)) \<and>
   load_token sdk_ok manager0
       (snd (save_credentials sdk_ok (manager0\<lparr>credentials := Some cred_live_micro\<rparr>)
          world_empty))
     = (Inr (), manager0\<lparr>credentials := Some cred_live\<rparr>) \<and>
   load_token sdk_ok manager0
       (snd (save_credentials sdk_ok (manager0\<lparr>credentials := Some cred_live\<rparr>) world_empty))
     = (Inr (), manager0\<lparr>credentials := Some cred_live\<rparr>) \<and>
   load_token sdk_ok (manager0\<lparr>credentials := Some cred_stale\<rparr>)
       (snd (save_credentials sdk_ok (manager0\<lparr>credentials := Some cred_live_norefresh\<rparr>)
          world_empty))
     = (Inr (), manager0)"
proof -
  let ?mm = "manager0\<lparr>credentials := Some cred_live_micro\<rparr>"
  let ?ml = "manager0\<lparr>credentials := Some cred_live\<rparr>"
  let ?mn = "manager0\<lparr>credentials := Some cred_live_norefresh\<rparr>"
  have v: "valid sdk_ok cred_live_micro" "valid sdk_ok cred_live" "valid sdk_ok cred_live_norefresh"
    by (simp_all add: example_defs cred_live_micro_def cred_live_norefresh_def
        valid_def expired_def)
  have u: "unwritable world_empty (token_file ?mm) = None"
    "unwritable world_empty (token_file ?ml) = None"
    "unwritable world_empty (token_file ?mn) = None"
    by (simp_all add: example_defs)
  have k: "refresh_token cred_live_micro \<noteq> None \<and> client_id cred_live_micro \<noteq> None \<and>
           client_secret cred_live_micro \<noteq> None"
    "refresh_token cred_live \<noteq> None \<and> client_id cred_live \<noteq> None \<and>
     client_secret cred_live \<noteq> None \<and> expiry cred_live = Some 5000000000 \<and>
     (5000000000::int) mod 1000000 = 0"
    "refresh_token cred_live_norefresh = None"
    by (simp_all add: example_defs cred_live_micro_def cred_live_norefresh_def)
  have t: "cred_live_micro\<lparr>expiry := Some (case expiry cred_live_micro of
              None \<Rightarrow> utcnow sdk_ok - int (refresh_threshold sdk_ok)
            | Some t \<Rightarrow> t - t mod 1000000)\<rparr> = cred_live"
    by (simp add: example_defs cred_live_micro_def)
  have s: "?mm\<lparr>credentials := None\<rparr> = manager0" "?ml\<lparr>credentials := None\<rparr> = manager0"
    "?mn\<lparr>credentials := None\<rparr> = manager0"
    "?mn\<lparr>credentials := Some cred_stale\<rparr> = manager0\<lparr>credentials := Some cred_stale\<rparr>"
    "?mm\<lparr>credentials := Some cred_live\<rparr> = ?ml"
    "token_file ?mm = ''token.json''"
    by (simp_all add: example_defs)
  show ?thesis
    using save_then_load [of ?mm cred_live_micro sdk_ok world_empty None, OF _ v(1) u(1)]
      save_then_load [of ?ml cred_live sdk_ok world_empty None, OF _ v(2) u(2)]
      save_then_load [of ?mn cred_live_norefresh sdk_ok world_empty "Some cred_stale",
        OF _ v(3) u(3)]
      k t s
    by simp
qed

text \<open>
  The claim as stated fails twice: a valid credential without refresh token is saved and
  loads as no credential at all, and a valid credential with a fraction of a second in its
  expiry loads with another expiry.
\<close>

theorem save_then_load_counterexample:
  "valid sdk_ok cred_live_norefresh \<and>
   load_token sdk_ok manager0
       (snd (save_credentials sdk_ok (manager0\<lparr>credentials := Some cred_live_norefresh\<rparr>)
          world_empty))
     = (Inr (), manager0) \<and>
   credentials manager0 = None \<and>
   valid sdk_ok cred_live_micro \<and>
   load_token sdk_ok manager0
       (snd (save_credentials sdk_ok (manager0\<lparr>credentials := Some cred_live_micro\<rparr>)
          world_empty))
     = (Inr (), manager0\<lparr>credentials := Some cred_live\<rparr>) \<and>
   expiry cred_live_micro = Some 5000000123 \<and>
   expiry cred_live = Some 5000000000"
  by (simp add: example_defs cred_live_micro_def cred_live_norefresh_def method_defs)

subsection \<open>Claim C8: revoking without a valid credential\<close>

text \<open>
  C8: when \<^verbatim>\<open>revoke_token\<close> is called while no valid credential is held (none at all, or one
  that is not valid), it returns \<^verbatim>\<open>False\<close> and changes nothing: the manager and the world
  after the call are the ones before it, so the token file is neither written nor removed,
  no event is added to the trace, and the in-memory credential is the same.
\<close>

theorem revoke_token_without_valid_credential:
  assumes "\<not> (\<exists>c. credentials m = Some c \<and> valid E c)"
  shows "revoke_token E m w = (Inr False, m, w)"
  using assms by (simp add: revoke_token_def split: option.splits)

theorem revoke_token_without_valid_credential_witness:
  "revoke_token sdk_ok manager0 world_empty = (Inr False, manager0, world_empty) \<and>
   revoke_token sdk_ok (manager0\<lparr>credentials := Some cred_stale\<rparr>)
       (world_with (Content (Object (to_json cred_stale))))
     = (Inr False, manager0\<lparr>credentials := Some cred_stale\<rparr>,
        world_with (Content (Object (to_json cred_stale))))"
proof -
  have a: "\<not> (\<exists>c. credentials manager0 = Some c \<and> valid sdk_ok c)"
    by (simp add: manager0_def init_def)
  have b: "\<not> (\<exists>c. credentials (manager0\<lparr>credentials := Some cred_stale\<rparr>) = Some c \<and>
                 valid sdk_ok c)"
    by (simp add: valid_def expired_def cred_stale_def sdk_ok_def)
  show ?thesis
    using revoke_token_without_valid_credential [OF a]
      revoke_token_without_valid_credential [OF b] by simp
qed

subsection \<open>Claim C9: the token file takes precedence over the in-memory credential\<close>




text \<open>Without a token file the forced expiry is in force: the refresh happens.\<close>

lemma force_refresh_without_file_refreshes:
  "new_events world_empty
       (snd (snd (force_refresh sdk_ok (manager0\<lparr>credentials := Some cred_live\<rparr>) world_empty)))
     = [Refresh, FileWrite ''token.json'' (Object (to_json cred_renewed))]"
  by (simp add: example_defs method_defs force_refresh_def)

subsection \<open>Claim C10: \<open>revoke_token\<close> refreshes and then stops\<close>

text \<open>
  C10 says that \<^verbatim>\<open>revoke_token\<close>, called with a valid in-memory credential, first makes a
  refresh that replaces the held access token, then submits the refreshed token to the
  revoke endpoint, and that it returns \<^verbatim>\<open>False\<close> without calling the endpoint if the
  refresh raises.

  The refresh comes first and replaces the held credential, and a refresh that raises ends
  the method with \<^verbatim>\<open>False\<close>.  The refreshed token is never submitted: the
  \<^verbatim>\<open>request.post\<close> of the source raises an \<^verbatim>\<open>AttributeError\<close> before any request, so
  that with the valid credential \<open>c\<close> in memory the refresh is the only event in either
  case and the result is \<^verbatim>\<open>False\<close>.
\<close>

theorem revoke_token_refreshes_then_stops:
  assumes "credentials m = Some c" and "valid E c"
  shows "(\<forall>c'. refresh E c = Inr c' \<longrightarrow>
            revoke_token E m w =
              (Inr False, m\<lparr>credentials := Some c'\<rparr>, w\<lparr>trace := trace w @ [Refresh]\<rparr>)) \<and>
         (\<forall>e. refresh E c = Inl e \<longrightarrow>
            revoke_token E m w = (Inr False, m, w\<lparr>trace := trace w @ [Refresh]\<rparr>))"
  using assms
  by (simp add: revoke_token_def request_post_def Let_def)

theorem revoke_token_refreshes_then_stops_witness:
  "revoke_token sdk_ok (manager0\<lparr>credentials := Some cred_live\<rparr>)
       (world_with (Content (Object (to_json cred_live))))
     = (Inr False, manager0\<lparr>credentials := Some cred_renewed\<rparr>,
        world_with (Content (Object (to_json cred_live)))\<lparr>trace := [Refresh]\<rparr>) \<and>
   revoke_token sdk_rejecting (manager0\<lparr>credentials := Some cred_live\<rparr>)
       (world_with (Content (Object (to_json cred_live))))
     = (Inr False, manager0\<lparr>credentials := Some cred_live\<rparr>,
        world_with (Content (Object (to_json cred_live)))\<lparr>trace := [Refresh]\<rparr>)"
proof -
  let ?m = "manager0\<lparr>credentials := Some cred_live\<rparr>"
  let ?w = "world_with (Content (Object (to_json cred_live)))"
  have a: "credentials ?m = Some cred_live" by simp
  have b: "valid sdk_ok cred_live" "valid sdk_rejecting cred_live"
    by (simp_all add: example_defs sdk_rejecting_def valid_def expired_def)
  have r: "refresh sdk_ok cred_live = Inr cred_renewed"
    "refresh sdk_rejecting cred_live = Inl (RefreshError ''invalid_grant'')"
    by (simp_all add: example_defs sdk_rejecting_def)
  have t: "trace ?w = []" by (simp add: example_defs)
  show ?thesis
    using revoke_token_refreshes_then_stops [OF a b(1), of ?w]
      revoke_token_refreshes_then_stops [OF a b(2), of ?w] r t
    by simp
qed

end
